theory Spec2Isabelle
  imports Complex_Main
begin

section \<open>Data model (types/email.types.ts, interfaces/IMailProvider.ts)\<close>

text \<open>
  Strings are \<open>char list\<close>s; an optional property (\<open>x?: T\<close>) is a \<open>T option\<close>,
  \<open>None\<close> standing for \<open>undefined\<close>. Counters are natural numbers and durations are
  integers (milliseconds); rates and averages are exact rationals. A JavaScript
  \<open>Error\<close> is carried by its message.
\<close>

datatype js_error = Error string

datatype recipients = One string | Many "string list"

datatype EmailPriority = LOW | NORMAL | HIGH | CRITICAL

datatype content = Buffer string | Str string

record EmailAttachment =
  att_filename :: string
  att_content :: "content option"
  att_path :: "string option"
  att_contentType :: "string option"
  att_cid :: "string option"

record EmailOptions =
  eo_to :: recipients
  eo_cc :: "recipients option"
  eo_bcc :: "recipients option"
  eo_subject :: string
  eo_text :: "string option"
  eo_html :: "string option"
  eo_attachments :: "EmailAttachment list option"
  eo_replyTo :: "string option"
  eo_headers :: "(string \<times> string) list option"
  eo_priority :: "EmailPriority option"
  eo_tags :: "string list option"
  eo_metadata :: "(string \<times> string) list option"

text \<open>\<open>EmailResult\<close>; \<open>retryCount\<close> and \<open>deliveryStatus\<close> are never written by the code.\<close>

record EmailResult =
  success :: bool
  messageId :: "string option"
  response :: "string option"
  error :: "string option"
  duration :: int
  provider :: string

record ProviderHealthStatus =
  isHealthy :: bool
  hs_lastSuccessfulSend :: nat
  hs_lastError :: string
  hs_errorCount :: nat
  successRate :: rat
  averageResponseTime :: rat
  hs_sentToday :: nat
  hs_sentThisHour :: nat
  queueSize :: nat

text \<open>The \<open>metrics\<close> object both adapters hold; a \<open>Date\<close> is a natural number.\<close>

record metrics =
  sentToday :: nat
  sentThisHour :: nat
  errorCount :: nat
  successCount :: nat
  totalResponseTime :: int
  lastSuccessfulSend :: nat
  lastError :: string

text \<open>The configuration objects handed to the adapters' \<open>initialize\<close>.\<close>

record smtp_config =
  sc_host :: "string option"
  sc_port :: "nat option"
  sc_secure :: "bool option"
  sc_user :: "string option"
  sc_password :: "string option"
  sc_from :: "string option"

record sg_config =
  gc_apiKey :: "string option"
  gc_from :: "string option"

text \<open>The options \<open>NodemailerProvider.initialize\<close> passes to \<open>createTransport\<close>
  (the constant pool settings left out); a created transporter is known by them.\<close>

record transport =
  t_host :: "string option"
  t_port :: "nat option"
  t_secure :: bool
  t_user :: "string option"
  t_pass :: "string option"

record smtp_info =
  info_messageId :: "string option"
  info_response :: "string option"

record sg_response =
  statusCode :: nat
  body :: string
  x_message_id :: "string option"

section \<open>The outside world\<close>

text \<open>
  The transports, the clock and the file system are third-party collaborators. One value
  of \<open>world\<close> fixes how each of them answers during one operation: a call that throws
  or rejects answers \<open>Inl\<close> (or \<open>Some\<close>) with the \<open>message\<close> of the error, which may be
  \<open>undefined\<close>. The mail data an adapter builds is a function of its \<open>from\<close> address and
  of the message, so the send calls are given those.
\<close>

record world =
  createTransport :: "transport \<Rightarrow> string option"
  smtp_verify :: "transport \<Rightarrow> bool"
  smtp_sendMail :: "transport \<Rightarrow> string option \<Rightarrow> EmailOptions \<Rightarrow> string option + smtp_info"
  sg_test_send :: "sg_config \<Rightarrow> bool"
  sg_send :: "string option \<Rightarrow> EmailOptions \<Rightarrow> string option + sg_response"
  elapsed :: "string \<Rightarrow> int"
  now :: nat
  readFileSync :: "string \<Rightarrow> string + string"
  handlebars :: "string \<Rightarrow> (string \<times> string) list \<Rightarrow> string + string"

text \<open>
  What a mock of an adapter observes: the constructions and the entries into
  \<open>sendEmail\<close> and \<open>verifyConnection\<close>, in the order they happen. Every operation
  returns the events it caused.
\<close>

datatype event =
  Constructed string
  | SendEmailCalled string EmailOptions
  | VerifyCalled string

section \<open>Provider adapters (providers/NodemailerProvider.ts, providers/SendGridProvider.ts)\<close>

record NodemailerProvider =
  nm_transporter :: "transport option"
  nm_config :: "smtp_config option"
  nm_metrics :: metrics

record SendGridProvider =
  sg_config :: "sg_config option"
  sg_isInitialized :: bool
  sg_metrics :: metrics

definition new_metrics :: "nat \<Rightarrow> metrics" where
  "new_metrics t =
     \<lparr>sentToday = 0, sentThisHour = 0, errorCount = 0, successCount = 0,
      totalResponseTime = 0, lastSuccessfulSend = t, lastError = ''''\<rparr>"

definition new_NodemailerProvider :: "world \<Rightarrow> NodemailerProvider" where
  "new_NodemailerProvider w =
     \<lparr>nm_transporter = None, nm_config = None, nm_metrics = new_metrics (now w)\<rparr>"

definition new_SendGridProvider :: "world \<Rightarrow> SendGridProvider" where
  "new_SendGridProvider w =
     \<lparr>sg_config = None, sg_isInitialized = False, sg_metrics = new_metrics (now w)\<rparr>"

text \<open>Truthiness of an optional string: \<open>undefined\<close> and the empty string are falsy;
  \<open>or_else x d\<close> is \<open>x || d\<close>.\<close>

definition falsy :: "string option \<Rightarrow> bool" where
  "falsy x = (case x of None \<Rightarrow> True | Some s \<Rightarrow> s = [])"

definition or_else :: "string option \<Rightarrow> string \<Rightarrow> string" where
  "or_else x d = (case x of None \<Rightarrow> d | Some s \<Rightarrow> if s = [] then d else s)"

text \<open>\<open>updateMetrics(success, duration, error?)\<close>, the same in both adapters; the
  fourth argument is the value of \<open>new Date()\<close>.\<close>

definition updateMetrics :: "bool \<Rightarrow> int \<Rightarrow> string option \<Rightarrow> nat \<Rightarrow> metrics \<Rightarrow> metrics" where
  "updateMetrics ok d err t m =
     (if ok then
        m\<lparr>successCount := successCount m + 1,
          sentToday := sentToday m + 1,
          sentThisHour := sentThisHour m + 1,
          totalResponseTime := totalResponseTime m + d,
          lastSuccessfulSend := t\<rparr>
      else
        m\<lparr>errorCount := errorCount m + 1,
          lastError := or_else err ''Unknown error''\<rparr>)"

subsection \<open>NodemailerProvider\<close>

definition nm_initialize ::
  "world \<Rightarrow> smtp_config \<Rightarrow> NodemailerProvider \<Rightarrow> (js_error + unit) \<times> NodemailerProvider" where
  "nm_initialize w config p =
     (let p1 = p\<lparr>nm_config := Some config\<rparr>;
          t = \<lparr>t_host = sc_host config, t_port = sc_port config,
               t_secure = (sc_secure config = Some True),
               t_user = sc_user config, t_pass = sc_password config\<rparr>
      in case createTransport w t of
           Some msg \<Rightarrow> (Inl (Error msg), p1)
         | None \<Rightarrow> (Inr (), p1\<lparr>nm_transporter := Some t\<rparr>))"

definition nm_from :: "NodemailerProvider \<Rightarrow> string option" where
  "nm_from p = (case nm_config p of None \<Rightarrow> None | Some c \<Rightarrow> sc_from c)"

definition nm_sendEmail ::
  "world \<Rightarrow> NodemailerProvider \<Rightarrow> EmailOptions \<Rightarrow>
     (js_error + EmailResult) \<times> NodemailerProvider \<times> event list" where
  "nm_sendEmail w p options =
     (case nm_transporter p of
        None \<Rightarrow>
          (Inl (Error ''Nodemailer provider not initialized''), p,
           [SendEmailCalled ''nodemailer'' options])
      | Some t \<Rightarrow>
          (case smtp_sendMail w t (nm_from p) options of
             Inr info \<Rightarrow>
               (Inr \<lparr>success = True,
                     messageId = Some (or_else (info_messageId info) ''''),
                     response = Some (or_else (info_response info) ''''),
                     error = None,
                     duration = elapsed w ''nodemailer'',
                     provider = ''nodemailer''\<rparr>,
                p\<lparr>nm_metrics :=
                    updateMetrics True (elapsed w ''nodemailer'') None (now w) (nm_metrics p)\<rparr>,
                [SendEmailCalled ''nodemailer'' options])
           | Inl msg \<Rightarrow>
               (Inr \<lparr>success = False, messageId = None, response = None,
                     error = msg,
                     duration = elapsed w ''nodemailer'',
                     provider = ''nodemailer''\<rparr>,
                p\<lparr>nm_metrics :=
                    updateMetrics False (elapsed w ''nodemailer'') msg (now w) (nm_metrics p)\<rparr>,
                [SendEmailCalled ''nodemailer'' options])))"

definition nm_verifyConnection :: "world \<Rightarrow> NodemailerProvider \<Rightarrow> bool \<times> event list" where
  "nm_verifyConnection w p =
     (case nm_transporter p of
        None \<Rightarrow> (False, [VerifyCalled ''nodemailer''])
      | Some t \<Rightarrow> (smtp_verify w t, [VerifyCalled ''nodemailer'']))"

text \<open>The two derived figures of \<open>getHealthStatus\<close>, the same in both adapters. They are
  exact here; the source computes them in double-precision arithmetic.\<close>

definition success_rate :: "metrics \<Rightarrow> rat" where
  "success_rate m =
     (if successCount m + errorCount m > 0
      then (of_nat (successCount m) / of_nat (successCount m + errorCount m)) * 100
      else 0)"

definition average_response_time :: "metrics \<Rightarrow> rat" where
  "average_response_time m =
     (if successCount m > 0 then of_int (totalResponseTime m) / of_nat (successCount m) else 0)"

definition health_of :: "bool \<Rightarrow> metrics \<Rightarrow> ProviderHealthStatus" where
  "health_of h m =
     \<lparr>isHealthy = h,
      hs_lastSuccessfulSend = lastSuccessfulSend m,
      hs_lastError = lastError m,
      hs_errorCount = errorCount m,
      successRate = success_rate m,
      averageResponseTime = average_response_time m,
      hs_sentToday = sentToday m,
      hs_sentThisHour = sentThisHour m,
      queueSize = 0\<rparr>"

definition nm_getHealthStatus ::
  "world \<Rightarrow> NodemailerProvider \<Rightarrow> ProviderHealthStatus \<times> event list" where
  "nm_getHealthStatus w p =
     (let (connected, evs) = nm_verifyConnection w p
      in (health_of (connected \<and> success_rate (nm_metrics p) > 95) (nm_metrics p), evs))"

subsection \<open>SendGridProvider\<close>

definition sg_initialize ::
  "world \<Rightarrow> sg_config \<Rightarrow> SendGridProvider \<Rightarrow> (js_error + unit) \<times> SendGridProvider" where
  "sg_initialize w config p =
     (let p1 = p\<lparr>sg_config := Some config\<rparr>
      in if falsy (gc_apiKey config)
         then (Inl (Error ''SendGrid API key is required''), p1)
         else (Inr (), p1\<lparr>sg_isInitialized := True\<rparr>))"

definition sg_from :: "SendGridProvider \<Rightarrow> string option" where
  "sg_from p = (case sg_config p of None \<Rightarrow> None | Some c \<Rightarrow> gc_from c)"

fun decimal :: "nat \<Rightarrow> string" where
  "decimal n =
     (if n < 10 then [char_of (48 + n)] else decimal (n div 10) @ [char_of (48 + n mod 10)])"

declare decimal.simps [simp del]

definition sg_sendEmail ::
  "world \<Rightarrow> SendGridProvider \<Rightarrow> EmailOptions \<Rightarrow>
     (js_error + EmailResult) \<times> SendGridProvider \<times> event list" where
  "sg_sendEmail w p options =
     (if \<not> sg_isInitialized p then
        (Inl (Error ''SendGrid provider not initialized''), p,
         [SendEmailCalled ''sendgrid'' options])
      else
        (case sg_send w (sg_from p) options of
           Inr r \<Rightarrow>
             (Inr \<lparr>success = True,
                   messageId = x_message_id r,
                   response = Some (decimal (statusCode r) @ '': '' @ body r),
                   error = None,
                   duration = elapsed w ''sendgrid'',
                   provider = ''sendgrid''\<rparr>,
              p\<lparr>sg_metrics :=
                  updateMetrics True (elapsed w ''sendgrid'') None (now w) (sg_metrics p)\<rparr>,
              [SendEmailCalled ''sendgrid'' options])
         | Inl msg \<Rightarrow>
             (Inr \<lparr>success = False, messageId = None, response = None,
                   error = msg,
                   duration = elapsed w ''sendgrid'',
                   provider = ''sendgrid''\<rparr>,
              p\<lparr>sg_metrics :=
                  updateMetrics False (elapsed w ''sendgrid'') msg (now w) (sg_metrics p)\<rparr>,
              [SendEmailCalled ''sendgrid'' options])))"

text \<open>\<open>verifyConnection\<close> sends a test message from the configured address to itself.\<close>

definition sg_verifyConnection :: "world \<Rightarrow> SendGridProvider \<Rightarrow> bool \<times> event list" where
  "sg_verifyConnection w p =
     (if \<not> sg_isInitialized p then (False, [VerifyCalled ''sendgrid''])
      else (case sg_config p of
              None \<Rightarrow> (False, [VerifyCalled ''sendgrid''])
            | Some c \<Rightarrow> (sg_test_send w c, [VerifyCalled ''sendgrid''])))"

definition sg_getHealthStatus ::
  "world \<Rightarrow> SendGridProvider \<Rightarrow> ProviderHealthStatus \<times> event list" where
  "sg_getHealthStatus w p =
     (health_of (sg_isInitialized p \<and> success_rate (sg_metrics p) > 95) (sg_metrics p), [])"

definition sg_shutdown :: "SendGridProvider \<Rightarrow> SendGridProvider" where
  "sg_shutdown p = p\<lparr>sg_isInitialized := False\<rparr>"

subsection \<open>The interface \<open>IMailProvider\<close>\<close>

datatype IMailProvider = NM NodemailerProvider | SG SendGridProvider

fun p_name :: "IMailProvider \<Rightarrow> string" where
  "p_name (NM p) = ''nodemailer''"
| "p_name (SG p) = ''sendgrid''"

fun p_priority :: "IMailProvider \<Rightarrow> int" where
  "p_priority (NM p) = 1"
| "p_priority (SG p) = 2"

fun p_metrics :: "IMailProvider \<Rightarrow> metrics" where
  "p_metrics (NM p) = nm_metrics p"
| "p_metrics (SG p) = sg_metrics p"

fun p_sendEmail ::
  "world \<Rightarrow> IMailProvider \<Rightarrow> EmailOptions \<Rightarrow>
     (js_error + EmailResult) \<times> IMailProvider \<times> event list" where
  "p_sendEmail w (NM p) options =
     (case nm_sendEmail w p options of (r, p', evs) \<Rightarrow> (r, NM p', evs))"
| "p_sendEmail w (SG p) options =
     (case sg_sendEmail w p options of (r, p', evs) \<Rightarrow> (r, SG p', evs))"

fun p_verifyConnection :: "world \<Rightarrow> IMailProvider \<Rightarrow> bool \<times> event list" where
  "p_verifyConnection w (NM p) = nm_verifyConnection w p"
| "p_verifyConnection w (SG p) = sg_verifyConnection w p"

fun p_getHealthStatus ::
  "world \<Rightarrow> IMailProvider \<Rightarrow> ProviderHealthStatus \<times> event list" where
  "p_getHealthStatus w (NM p) = nm_getHealthStatus w p"
| "p_getHealthStatus w (SG p) = sg_getHealthStatus w p"

fun p_ready :: "IMailProvider \<Rightarrow> bool" where
  "p_ready (NM p) = (nm_transporter p \<noteq> None)"
| "p_ready (SG p) = sg_isInitialized p"

section \<open>The orchestrator (SimpleFactory.ts)\<close>

record nodemailer_section =
  ns_enabled :: "bool option"
  ns_priority :: "int option"
  ns_rateLimit :: "nat option"
  ns_maxRetries :: "nat option"
  ns_timeout :: "nat option"
  ns_host :: "string option"
  ns_port :: "nat option"
  ns_secure :: "bool option"
  ns_user :: "string option"
  ns_password :: "string option"
  ns_from :: "string option"

record sendgrid_section =
  gs_enabled :: "bool option"
  gs_priority :: "int option"
  gs_rateLimit :: "nat option"
  gs_maxRetries :: "nat option"
  gs_timeout :: "nat option"
  gs_apiKey :: "string option"
  gs_from :: "string option"

record templates_section =
  ts_directory :: "string option"
  ts_cacheEnabled :: "bool option"
  ts_cacheTTL :: "nat option"

record SimpleEmailConfig =
  serviceName :: string
  nodemailer :: "nodemailer_section option"
  sendgrid :: "sendgrid_section option"
  templates :: "templates_section option"

record SimpleEmailService =
  providers :: "IMailProvider list"
  initialized :: bool
  config :: SimpleEmailConfig

definition new_SimpleEmailService :: "SimpleEmailConfig \<Rightarrow> SimpleEmailService" where
  "new_SimpleEmailService c = \<lparr>providers = [], initialized = False, config = c\<rparr>"

text \<open>
  \<open>Array.prototype.sort\<close> with a comparator is a stable sort: an element goes before
  the first one it compares \<open>\<le> 0\<close> with, so equal elements keep their order.
\<close>

fun insert_by :: "('a \<Rightarrow> 'a \<Rightarrow> int) \<Rightarrow> 'a \<Rightarrow> 'a list \<Rightarrow> 'a list" where
  "insert_by cmp x [] = [x]"
| "insert_by cmp x (y # ys) = (if cmp x y \<le> 0 then x # y # ys else y # insert_by cmp x ys)"

definition sort_by :: "('a \<Rightarrow> 'a \<Rightarrow> int) \<Rightarrow> 'a list \<Rightarrow> 'a list" where
  "sort_by cmp xs = foldr (insert_by cmp) xs []"

text \<open>\<open>p.priority || 1\<close> and the comparator of line 114.\<close>

definition priority_or_1 :: "IMailProvider \<Rightarrow> int" where
  "priority_or_1 p = (if p_priority p = 0 then 1 else p_priority p)"

definition by_priority :: "IMailProvider \<Rightarrow> IMailProvider \<Rightarrow> int" where
  "by_priority a b = priority_or_1 b - priority_or_1 a"

text \<open>Lines 62--85 and 88--107: each enabled adapter is constructed, initialized and
  verified; it joins the list only if both steps pass.\<close>

definition smtp_config_of :: "nodemailer_section \<Rightarrow> smtp_config" where
  "smtp_config_of c =
     \<lparr>sc_host = ns_host c, sc_port = ns_port c, sc_secure = ns_secure c,
      sc_user = ns_user c, sc_password = ns_password c, sc_from = ns_from c\<rparr>"

definition sg_config_of :: "sendgrid_section \<Rightarrow> sg_config" where
  "sg_config_of c = \<lparr>gc_apiKey = gs_apiKey c, gc_from = gs_from c\<rparr>"

definition try_nodemailer ::
  "world \<Rightarrow> SimpleEmailService \<Rightarrow> SimpleEmailService \<times> event list" where
  "try_nodemailer w s =
     (case nodemailer (config s) of
        None \<Rightarrow> (s, [])
      | Some c \<Rightarrow>
          if ns_enabled c \<noteq> Some True then (s, [])
          else
            (case nm_initialize w (smtp_config_of c) (new_NodemailerProvider w) of
               (Inl e, p) \<Rightarrow> (s, [Constructed ''nodemailer''])
             | (Inr u, p) \<Rightarrow>
                 (case nm_verifyConnection w p of
                    (isConnected, evs) \<Rightarrow>
                      (if isConnected then s\<lparr>providers := providers s @ [NM p]\<rparr> else s,
                       Constructed ''nodemailer'' # evs))))"

definition try_sendgrid ::
  "world \<Rightarrow> SimpleEmailService \<Rightarrow> SimpleEmailService \<times> event list" where
  "try_sendgrid w s =
     (case sendgrid (config s) of
        None \<Rightarrow> (s, [])
      | Some c \<Rightarrow>
          if gs_enabled c \<noteq> Some True then (s, [])
          else
            (case sg_initialize w (sg_config_of c) (new_SendGridProvider w) of
               (Inl e, p) \<Rightarrow> (s, [Constructed ''sendgrid''])
             | (Inr u, p) \<Rightarrow>
                 (case sg_verifyConnection w p of
                    (isConnected, evs) \<Rightarrow>
                      (if isConnected then s\<lparr>providers := providers s @ [SG p]\<rparr> else s,
                       Constructed ''sendgrid'' # evs))))"

definition initialize ::
  "world \<Rightarrow> SimpleEmailService \<Rightarrow> (js_error + unit) \<times> SimpleEmailService \<times> event list" where
  "initialize w s =
     (if initialized s then (Inr (), s, [])
      else
        (case try_nodemailer w s of
           (s1, evs1) \<Rightarrow>
             (case try_sendgrid w s1 of
                (s2, evs2) \<Rightarrow>
                  if providers s2 = []
                  then (Inl (Error ''No mail providers could be initialized''), s2, evs1 @ evs2)
                  else (Inr (),
                        s2\<lparr>providers := sort_by by_priority (providers s2), initialized := True\<rparr>,
                        evs1 @ evs2))))"

text \<open>The loop of \<open>sendEmail\<close> (lines 126--143): an adapter that raises or answers
  \<open>success = false\<close> is passed over.\<close>

definition all_failed :: EmailResult where
  "all_failed =
     \<lparr>success = False, messageId = None, response = None,
      error = Some ''All mail providers failed'', duration = 0, provider = ''none''\<rparr>"

fun try_providers ::
  "world \<Rightarrow> EmailOptions \<Rightarrow> IMailProvider list \<Rightarrow>
     EmailResult \<times> IMailProvider list \<times> event list" where
  "try_providers w options [] = (all_failed, [], [])"
| "try_providers w options (p # ps) =
     (case p_sendEmail w p options of
        (Inr result, p', evs) \<Rightarrow>
          if success result then (result, p' # ps, evs)
          else (case try_providers w options ps of
                  (r, ps', evs') \<Rightarrow> (r, p' # ps', evs @ evs'))
      | (Inl e, p', evs) \<Rightarrow>
          (case try_providers w options ps of
             (r, ps', evs') \<Rightarrow> (r, p' # ps', evs @ evs')))"

definition sendEmail ::
  "world \<Rightarrow> SimpleEmailService \<Rightarrow> EmailOptions \<Rightarrow>
     (js_error + EmailResult) \<times> SimpleEmailService \<times> event list" where
  "sendEmail w s options =
     (case (if \<not> initialized s then initialize w s else (Inr (), s, [])) of
        (Inl e, s1, evs) \<Rightarrow> (Inl e, s1, evs)
      | (Inr u, s1, evs) \<Rightarrow>
          (case try_providers w options (providers s1) of
             (r, ps', evs') \<Rightarrow> (Inr r, s1\<lparr>providers := ps'\<rparr>, evs @ evs')))"

definition getProviders :: "SimpleEmailService \<Rightarrow> string list" where
  "getProviders s = map p_name (providers s)"

subsection \<open>Templates\<close>

text \<open>
  The regular expression of line 163, \<open>/<!--\s*SUBJECT:\s*(.+?)\s*-->/i\<close>, on strings of
  8-bit characters. \<open>\s\<close> is white space, \<open>.\<close> is any character but a line terminator,
  and under \<open>i\<close> a letter of \<open>SUBJECT\<close> matches in either case. The first and the third
  \<open>\s*\<close> are followed by a character that is no white space, so they take all the white
  space there is; the second one is greedy and gives back one character at a time; the
  group is lazy and grows one character at a time. The match is the leftmost one.
\<close>

definition is_space :: "char \<Rightarrow> bool" where
  "is_space c = (c \<in> set [CHR 0x09, CHR 0x0A, CHR 0x0B, CHR 0x0C, CHR 0x0D, CHR 0x20, CHR 0xA0])"

definition is_line_terminator :: "char \<Rightarrow> bool" where
  "is_line_terminator c = (c = CHR 0x0A \<or> c = CHR 0x0D)"

fun strip_prefix :: "string \<Rightarrow> string \<Rightarrow> string option" where
  "strip_prefix [] s = Some s"
| "strip_prefix (p # ps) [] = None"
| "strip_prefix (p # ps) (c # cs) = (if c = p then strip_prefix ps cs else None)"

fun strip_keyword :: "(char \<times> char) list \<Rightarrow> string \<Rightarrow> string option" where
  "strip_keyword [] s = Some s"
| "strip_keyword (p # ps) [] = None"
| "strip_keyword (p # ps) (c # cs) =
     (if c = fst p \<or> c = snd p then strip_keyword ps cs else None)"

definition SUBJECT_colon :: "(char \<times> char) list" where
  "SUBJECT_colon = zip ''SUBJECT:'' ''subject:''"

definition closes :: "string \<Rightarrow> bool" where
  "closes s = (strip_prefix ''-->'' (dropWhile is_space s) \<noteq> None)"

fun lazy_group :: "string \<Rightarrow> string \<Rightarrow> string option" where
  "lazy_group acc [] = None"
| "lazy_group acc (c # cs) =
     (if is_line_terminator c then None
      else if closes cs then Some (acc @ [c])
      else lazy_group (acc @ [c]) cs)"

fun after_keyword :: "nat \<Rightarrow> string \<Rightarrow> string option" where
  "after_keyword 0 s = lazy_group [] s"
| "after_keyword (Suc j) s =
     (case lazy_group [] (drop (Suc j) s) of
        Some g \<Rightarrow> Some g
      | None \<Rightarrow> after_keyword j s)"

definition match_here :: "string \<Rightarrow> string option" where
  "match_here s =
     (case strip_prefix ''<!--'' s of
        None \<Rightarrow> None
      | Some r1 \<Rightarrow>
          (case strip_keyword SUBJECT_colon (dropWhile is_space r1) of
             None \<Rightarrow> None
           | Some r2 \<Rightarrow> after_keyword (length (takeWhile is_space r2)) r2))"

fun subject_match :: "string \<Rightarrow> string option" where
  "subject_match [] = None"
| "subject_match (c # cs) =
     (case match_here (c # cs) of
        Some g \<Rightarrow> Some g
      | None \<Rightarrow> subject_match cs)"

text \<open>Line 152: the path of a template.\<close>

definition templatePath :: "SimpleEmailConfig \<Rightarrow> string \<Rightarrow> string" where
  "templatePath c templateName =
     or_else (case templates c of None \<Rightarrow> None | Some t \<Rightarrow> ts_directory t) ''./templates''
       @ ''/'' @ templateName @ ''.html''"

text \<open>\<open>Omit<EmailOptions, 'html' | 'text' | 'subject'>\<close> and \<open>{...options, subject, html}\<close>.\<close>

record envelope =
  en_to :: recipients
  en_cc :: "recipients option"
  en_bcc :: "recipients option"
  en_attachments :: "EmailAttachment list option"
  en_replyTo :: "string option"
  en_headers :: "(string \<times> string) list option"
  en_priority :: "EmailPriority option"
  en_tags :: "string list option"
  en_metadata :: "(string \<times> string) list option"

definition with_body :: "envelope \<Rightarrow> string \<Rightarrow> string \<Rightarrow> EmailOptions" where
  "with_body e subject html =
     \<lparr>eo_to = en_to e, eo_cc = en_cc e, eo_bcc = en_bcc e,
      eo_subject = subject, eo_text = None, eo_html = Some html,
      eo_attachments = en_attachments e, eo_replyTo = en_replyTo e,
      eo_headers = en_headers e, eo_priority = en_priority e,
      eo_tags = en_tags e, eo_metadata = en_metadata e\<rparr>"

definition template_failure :: "string \<Rightarrow> EmailResult" where
  "template_failure msg =
     \<lparr>success = False, messageId = None, response = None,
      error = Some (''Template loading failed: '' @ msg),
      duration = 0, provider = ''template-loader''\<rparr>"

definition sendTemplateEmail ::
  "world \<Rightarrow> SimpleEmailService \<Rightarrow> string \<Rightarrow> (string \<times> string) list \<Rightarrow> envelope \<Rightarrow>
     (js_error + EmailResult) \<times> SimpleEmailService \<times> event list" where
  "sendTemplateEmail w s templateName templateData options =
     (case readFileSync w (templatePath (config s) templateName) of
        Inl msg \<Rightarrow> (Inr (template_failure msg), s, [])
      | Inr templateSource \<Rightarrow>
          (case handlebars w templateSource templateData of
             Inl msg \<Rightarrow> (Inr (template_failure msg), s, [])
           | Inr html \<Rightarrow>
               (case (case subject_match templateSource of
                        Some g \<Rightarrow> handlebars w g templateData
                      | None \<Rightarrow> Inr ''Email Notification'') of
                  Inl msg \<Rightarrow> (Inr (template_failure msg), s, [])
                | Inr subject \<Rightarrow> sendEmail w s (with_body options subject html))))"

subsection \<open>The templating engine on plain placeholders\<close>

text \<open>
  Modelled from the spec: the templating engine (the library behind
  \<open>handlebars.compile\<close>) is not part of the sources. \<open>mustache\<close> is that engine on
  the templates the specification describes, text with double-brace placeholders: a
  placeholder \<open>{{name}}\<close> is replaced by the HTML-escaped value of \<open>name\<close> in the data map,
  by nothing when the map has no such key. Anything else between double braces, and an
  opening with no closing, is answered with an error: such templates are outside this
  model.
\<close>

fun escape_char :: "char \<Rightarrow> string" where
  "escape_char c =
     (if c = CHR ''&'' then ''&amp;''
      else if c = CHR ''<'' then ''&lt;''
      else if c = CHR ''>'' then ''&gt;''
      else if c = CHR 0x22 then ''&quot;''
      else if c = CHR 0x27 then ''&#x27;''
      else if c = CHR 0x60 then ''&#x60;''
      else if c = CHR ''='' then ''&#x3D;''
      else [c])"

definition escapeExpression :: "string \<Rightarrow> string" where
  "escapeExpression s = concat (map escape_char s)"

definition is_id_char :: "char \<Rightarrow> bool" where
  "is_id_char c =
     (c \<in> set ''abcdefghijklmnopqrstuvwxyzABCDEFGHIJKLMNOPQRSTUVWXYZ0123456789_'')"

definition trim :: "string \<Rightarrow> string" where
  "trim s = rev (dropWhile is_space (rev (dropWhile is_space s)))"

definition is_identifier :: "string \<Rightarrow> bool" where
  "is_identifier s = (s \<noteq> [] \<and> list_all is_id_char s)"

definition lookup_escaped :: "(string \<times> string) list \<Rightarrow> string \<Rightarrow> string" where
  "lookup_escaped d k = (case map_of d k of None \<Rightarrow> [] | Some v \<Rightarrow> escapeExpression v)"

definition prepend :: "string \<Rightarrow> string + string \<Rightarrow> string + string" where
  "prepend s r = (case r of Inl e \<Rightarrow> Inl e | Inr out \<Rightarrow> Inr (s @ out))"

fun render :: "string option \<Rightarrow> (string \<times> string) list \<Rightarrow> string \<Rightarrow> string + string" where
  "render None d [] = Inr []"
| "render None d [c] = Inr [c]"
| "render None d (c1 # c2 # cs) =
     (if c1 = CHR ''{'' \<and> c2 = CHR ''{'' then render (Some []) d cs
      else prepend [c1] (render None d (c2 # cs)))"
| "render (Some acc) d [] = Inl ''Parse error''"
| "render (Some acc) d [c] = Inl ''Parse error''"
| "render (Some acc) d (c1 # c2 # cs) =
     (if c1 = CHR ''}'' \<and> c2 = CHR ''}'' then
        (if is_identifier (trim acc)
         then prepend (lookup_escaped d (trim acc)) (render None d cs)
         else Inl ''Unsupported expression'')
      else render (Some (acc @ [c1])) d (c2 # cs))"

definition mustache :: "string \<Rightarrow> (string \<times> string) list \<Rightarrow> string + string" where
  "mustache src d = render None d src"

section \<open>Notions the properties are stated with\<close>

text \<open>The error the transport answers an adapter's send with, if it answers with one:
  the outcome of \<open>transporter.sendMail\<close> and of \<open>sgMail.send\<close> inside \<open>sendEmail\<close>.\<close>

definition transport_error :: "world \<Rightarrow> IMailProvider \<Rightarrow> EmailOptions \<Rightarrow> string option option" where
  "transport_error w p options =
     (case p of
        NM q \<Rightarrow>
          (case nm_transporter q of
             None \<Rightarrow> None
           | Some t \<Rightarrow>
               (case smtp_sendMail w t (nm_from q) options of
                  Inl msg \<Rightarrow> Some msg | Inr info \<Rightarrow> None))
      | SG q \<Rightarrow>
          (case sg_send w (sg_from q) options of Inl msg \<Rightarrow> Some msg | Inr r \<Rightarrow> None))"

text \<open>An adapter succeeds on a message when its \<open>sendEmail\<close> returns a result with
  \<open>success = true\<close>; raising and \<open>success = false\<close> both count as not succeeding.\<close>

definition succeeds :: "world \<Rightarrow> EmailOptions \<Rightarrow> IMailProvider \<Rightarrow> bool" where
  "succeeds w options p =
     (case fst (p_sendEmail w p options) of Inl e \<Rightarrow> False | Inr r \<Rightarrow> success r)"

text \<open>A configured adapter survives when it is enabled, its \<open>initialize\<close> completes and
  its \<open>verifyConnection\<close> answers \<open>true\<close>.\<close>

definition nm_survives :: "world \<Rightarrow> SimpleEmailConfig \<Rightarrow> bool" where
  "nm_survives w c =
     (case nodemailer c of
        None \<Rightarrow> False
      | Some n \<Rightarrow>
          ns_enabled n = Some True \<and>
          (case nm_initialize w (smtp_config_of n) (new_NodemailerProvider w) of
             (Inl e, p) \<Rightarrow> False
           | (Inr u, p) \<Rightarrow> fst (nm_verifyConnection w p)))"

definition sg_survives :: "world \<Rightarrow> SimpleEmailConfig \<Rightarrow> bool" where
  "sg_survives w c =
     (case sendgrid c of
        None \<Rightarrow> False
      | Some g \<Rightarrow>
          gs_enabled g = Some True \<and>
          (case sg_initialize w (sg_config_of g) (new_SendGridProvider w) of
             (Inl e, p) \<Rightarrow> False
           | (Inr u, p) \<Rightarrow> fst (sg_verifyConnection w p)))"

text \<open>The priority the configuration declares for an adapter: the \<open>priority\<close> field of
  its section of \<open>SimpleEmailConfig\<close>.\<close>

definition configured_priority :: "SimpleEmailConfig \<Rightarrow> IMailProvider \<Rightarrow> int option" where
  "configured_priority c p =
     (case p of
        NM q \<Rightarrow> (case nodemailer c of None \<Rightarrow> None | Some n \<Rightarrow> ns_priority n)
      | SG q \<Rightarrow> (case sendgrid c of None \<Rightarrow> None | Some g \<Rightarrow> gs_priority g))"

text \<open>The adapters in the order \<open>initialize\<close> registers them (the pushes of lines 77
  and 99), before the sort of line 114.\<close>

definition registered :: "world \<Rightarrow> SimpleEmailService \<Rightarrow> IMailProvider list" where
  "registered w s = providers (fst (try_sendgrid w (fst (try_nodemailer w s))))"

text \<open>The states an orchestrator passes through: until it is Ready it holds no adapter.\<close>

definition ready_or_empty :: "SimpleEmailService \<Rightarrow> bool" where
  "ready_or_empty s = (initialized s \<or> providers s = [])"

section \<open>Concrete worlds, adapters and services\<close>

text \<open>The values the closed theorems below are evaluated at.\<close>

definition hello :: EmailOptions where
  "hello =
     \<lparr>eo_to = One ''user@example.com'', eo_cc = None, eo_bcc = None,
      eo_subject = ''Welcome!'', eo_text = Some ''Hello World'',
      eo_html = Some ''<h1>Hello World</h1>'', eo_attachments = None, eo_replyTo = None,
      eo_headers = None, eo_priority = None, eo_tags = None, eo_metadata = None\<rparr>"

definition to_ada :: envelope where
  "to_ada =
     \<lparr>en_to = One ''ada@example.com'', en_cc = None, en_bcc = None,
      en_attachments = None, en_replyTo = None, en_headers = None,
      en_priority = None, en_tags = None, en_metadata = None\<rparr>"

definition welcome_html :: string where
  "welcome_html = ''<!-- SUBJECT: Hi {{name}} -->'' @ [CHR 0x0A] @ ''<p>{{name}}</p>''"

text \<open>A world where the SMTP relay works and the API rejects every request; its
  template directory holds \<open>welcome.html\<close> (with a subject directive) and
  \<open>plain.html\<close> (without).\<close>

definition smtp_up :: world where
  "smtp_up =
     \<lparr>createTransport = (\<lambda>t. None),
      smtp_verify = (\<lambda>t. True),
      smtp_sendMail = (\<lambda>t f m. Inr \<lparr>info_messageId = Some ''<1@smtp>'',
                                       info_response = Some ''250 OK''\<rparr>),
      sg_test_send = (\<lambda>c. False),
      sg_send = (\<lambda>f m. Inl (Some ''Forbidden'')),
      elapsed = (\<lambda>n. 12),
      now = 1000,
      readFileSync = (\<lambda>path.
        if path = ''./templates/welcome.html'' then Inr welcome_html
        else if path = ''./templates/plain.html'' then Inr ''<p>{{name}}</p>''
        else Inl ''ENOENT: no such file or directory''),
      handlebars = mustache\<rparr>"

text \<open>A world where both transports accept connections, the API rejects the sends and
  the SMTP relay delivers.\<close>

definition both_up :: world where
  "both_up = smtp_up\<lparr>sg_test_send := (\<lambda>c. True)\<rparr>"

text \<open>A world where nothing can be reached.\<close>

definition all_down :: world where
  "all_down =
     smtp_up\<lparr>smtp_verify := (\<lambda>t. False),
             smtp_sendMail := (\<lambda>t f m. Inl (Some ''Connection timeout''))\<rparr>"

definition smtp_section :: nodemailer_section where
  "smtp_section =
     \<lparr>ns_enabled = Some True, ns_priority = Some 5, ns_rateLimit = None,
      ns_maxRetries = None, ns_timeout = None, ns_host = Some ''smtp.example.com'',
      ns_port = Some 587, ns_secure = Some False, ns_user = Some ''mailer'',
      ns_password = Some ''secret'', ns_from = Some ''noreply@example.com''\<rparr>"

definition api_section :: sendgrid_section where
  "api_section =
     \<lparr>gs_enabled = Some True, gs_priority = Some 1, gs_rateLimit = None,
      gs_maxRetries = None, gs_timeout = None, gs_apiKey = Some ''sg.key'',
      gs_from = Some ''noreply@example.com''\<rparr>"

text \<open>Both adapters enabled; the configuration prefers the SMTP adapter (priority 5
  against 1).\<close>

definition two_config :: SimpleEmailConfig where
  "two_config =
     \<lparr>serviceName = ''demo'', nodemailer = Some smtp_section,
      sendgrid = Some api_section, templates = None\<rparr>"

definition a_transport :: transport where
  "a_transport =
     \<lparr>t_host = Some ''smtp.example.com'', t_port = Some 587, t_secure = False,
      t_user = Some ''mailer'', t_pass = Some ''secret''\<rparr>"

definition smtp_adapter :: NodemailerProvider where
  "smtp_adapter =
     \<lparr>nm_transporter = Some a_transport,
      nm_config = Some (smtp_config_of smtp_section),
      nm_metrics = new_metrics 1000\<rparr>"

definition api_adapter :: SendGridProvider where
  "api_adapter =
     \<lparr>sg_config = Some (sg_config_of api_section),
      sg_isInitialized = True,
      sg_metrics = new_metrics 1000\<rparr>"

text \<open>A Ready orchestrator holding both adapters, the API adapter first.\<close>

definition ready_service :: SimpleEmailService where
  "ready_service =
     \<lparr>providers = [SG api_adapter, NM smtp_adapter], initialized = True,
      config = two_config\<rparr>"

text \<open>An SMTP configuration with every field absent, and an API adapter with twenty
  recorded successes and no failure.\<close>

definition no_credentials :: smtp_config where
  "no_credentials =
     \<lparr>sc_host = None, sc_port = None, sc_secure = None, sc_user = None,
      sc_password = None, sc_from = None\<rparr>"

definition proven_api_adapter :: SendGridProvider where
  "proven_api_adapter = api_adapter\<lparr>sg_metrics := (new_metrics 1000)\<lparr>successCount := 20\<rparr>\<rparr>"

section \<open>The adapters' metrics\<close>

lemma updateMetrics_failure:
  "updateMetrics False d err t m =
     m\<lparr>errorCount := errorCount m + 1, lastError := or_else err ''Unknown error''\<rparr>"
  by (simp add: updateMetrics_def)

lemma updateMetrics_success_frame:
  "errorCount (updateMetrics True d err t m) = errorCount m"
  "lastError (updateMetrics True d err t m) = lastError m"
  by (simp_all add: updateMetrics_def)

lemma nm_sendEmail_cases:
  assumes "nm_sendEmail w p options = (Inr r, p', evs)"
  shows "(success r \<and> nm_metrics p' = updateMetrics True (duration r) None (now w) (nm_metrics p))
       \<or> (\<not> success r \<and> nm_metrics p' = updateMetrics False (duration r) (error r) (now w) (nm_metrics p))"
  using assms by (auto simp: nm_sendEmail_def split: option.splits sum.splits)

lemma sg_sendEmail_cases:
  assumes "sg_sendEmail w p options = (Inr r, p', evs)"
  shows "(success r \<and> sg_metrics p' = updateMetrics True (duration r) None (now w) (sg_metrics p))
       \<or> (\<not> success r \<and> sg_metrics p' = updateMetrics False (duration r) (error r) (now w) (sg_metrics p))"
  using assms by (auto simp: sg_sendEmail_def split: if_splits sum.splits)

lemma p_sendEmail_cases:
  assumes "p_sendEmail w p options = (Inr r, p', evs)"
  shows "(success r \<and> p_metrics p' = updateMetrics True (duration r) None (now w) (p_metrics p))
       \<or> (\<not> success r \<and> p_metrics p' = updateMetrics False (duration r) (error r) (now w) (p_metrics p))"
proof (cases p)
  case (NM q)
  with assms obtain q' where "nm_sendEmail w q options = (Inr r, q', evs)" "p' = NM q'"
    by (auto split: prod.splits)
  with NM nm_sendEmail_cases show ?thesis by fastforce
next
  case (SG q)
  with assms obtain q' where "sg_sendEmail w q options = (Inr r, q', evs)" "p' = SG q'"
    by (auto split: prod.splits)
  with SG sg_sendEmail_cases show ?thesis by fastforce
qed

lemma api_rejects_any:
  "p_sendEmail both_up (SG api_adapter) m =
     (Inr \<lparr>success = False, messageId = None, response = None, error = Some ''Forbidden'',
           duration = 12, provider = ''sendgrid''\<rparr>,
      SG (api_adapter\<lparr>sg_metrics :=
            updateMetrics False 12 (Some ''Forbidden'') 1000 (sg_metrics api_adapter)\<rparr>),
      [SendEmailCalled ''sendgrid'' m])"
  by (simp add: sg_sendEmail_def api_adapter_def both_up_def smtp_up_def sg_from_def)

lemma smtp_delivers_any:
  "p_sendEmail both_up (NM smtp_adapter) m =
     (Inr \<lparr>success = True, messageId = Some ''<1@smtp>'', response = Some ''250 OK'',
           error = None, duration = 12, provider = ''nodemailer''\<rparr>,
      NM (smtp_adapter\<lparr>nm_metrics :=
            updateMetrics True 12 None 1000 (nm_metrics smtp_adapter)\<rparr>),
      [SendEmailCalled ''nodemailer'' m])"
  by (simp add: nm_sendEmail_def smtp_adapter_def both_up_def smtp_up_def nm_from_def or_else_def)

lemmas api_rejects = api_rejects_any [of hello]

lemmas smtp_delivers = smtp_delivers_any [of hello]

text \<open>
  Claim C10. Whenever an adapter's \<open>sendEmail\<close> returns a result, a failed attempt
  (\<open>success = false\<close>) leaves \<open>successCount\<close>, \<open>sentToday\<close>, \<open>sentThisHour\<close>,
  \<open>totalResponseTime\<close> and \<open>lastSuccessfulSend\<close> as they were, adds one to \<open>errorCount\<close>
  and sets \<open>lastError\<close> to the error text (\<open>Unknown error\<close> when there is none); a
  successful attempt leaves \<open>errorCount\<close> and \<open>lastError\<close> as they were.
\<close>

theorem send_attempt_metrics_frame:
  assumes "p_sendEmail w p options = (Inr r, p', evs)"
  shows "(\<not> success r \<longrightarrow>
            successCount (p_metrics p') = successCount (p_metrics p) \<and>
            sentToday (p_metrics p') = sentToday (p_metrics p) \<and>
            sentThisHour (p_metrics p') = sentThisHour (p_metrics p) \<and>
            totalResponseTime (p_metrics p') = totalResponseTime (p_metrics p) \<and>
            lastSuccessfulSend (p_metrics p') = lastSuccessfulSend (p_metrics p) \<and>
            errorCount (p_metrics p') = errorCount (p_metrics p) + 1 \<and>
            lastError (p_metrics p') = or_else (error r) ''Unknown error'')
       \<and> (success r \<longrightarrow>
            errorCount (p_metrics p') = errorCount (p_metrics p) \<and>
            lastError (p_metrics p') = lastError (p_metrics p))"
  using p_sendEmail_cases [OF assms]
  by (auto simp: updateMetrics_failure updateMetrics_success_frame)

text \<open>The API adapter after a rejected send, the SMTP adapter after a delivered one.\<close>

theorem send_attempt_metrics_frame_witness:
  "\<not> success (projr (fst (p_sendEmail both_up (SG api_adapter) hello)))
   \<and> errorCount (p_metrics (fst (snd (p_sendEmail both_up (SG api_adapter) hello)))) = 1
   \<and> successCount (p_metrics (fst (snd (p_sendEmail both_up (SG api_adapter) hello)))) = 0
   \<and> lastError (p_metrics (fst (snd (p_sendEmail both_up (SG api_adapter) hello)))) = ''Forbidden''
   \<and> success (projr (fst (p_sendEmail both_up (NM smtp_adapter) hello)))
   \<and> errorCount (p_metrics (fst (snd (p_sendEmail both_up (NM smtp_adapter) hello)))) = 0
   \<and> lastError (p_metrics (fst (snd (p_sendEmail both_up (NM smtp_adapter) hello)))) = []"
  unfolding api_rejects smtp_delivers
  using send_attempt_metrics_frame [OF api_rejects]
    send_attempt_metrics_frame [OF smtp_delivers]
  by (simp add: api_adapter_def smtp_adapter_def new_metrics_def or_else_def)

section \<open>An adapter's \<open>sendEmail\<close>\<close>

lemma p_sendEmail_events:
  "snd (snd (p_sendEmail w p options)) = [SendEmailCalled (p_name p) options]"
  by (cases p)
     (auto simp: nm_sendEmail_def sg_sendEmail_def split: option.splits sum.splits prod.splits)

lemma p_sendEmail_not_ready:
  "\<not> p_ready p \<Longrightarrow>
     p_sendEmail w p options =
       (Inl (Error (if p_name p = ''nodemailer'' then ''Nodemailer provider not initialized''
                    else ''SendGrid provider not initialized'')),
        p, [SendEmailCalled (p_name p) options])"
  by (cases p) (auto simp: nm_sendEmail_def sg_sendEmail_def)

lemma p_sendEmail_ready:
  assumes "p_ready p"
  shows "case p_sendEmail w p options of
           (Inl e, p', evs) \<Rightarrow> False
         | (Inr r, p', evs) \<Rightarrow>
             (case transport_error w p options of
                None \<Rightarrow> success r \<and> error r = None
              | Some msg \<Rightarrow>
                  \<not> success r \<and> error r = msg \<and>
                  errorCount (p_metrics p') = errorCount (p_metrics p) + 1 \<and>
                  lastError (p_metrics p') = or_else msg ''Unknown error'')"
  using assms
  by (cases p)
     (auto simp: nm_sendEmail_def sg_sendEmail_def transport_error_def updateMetrics_def
           split: option.splits sum.splits)

text \<open>
  Claim C4, as stated, fails: \<open>sendEmail\<close> of an adapter that was never initialized
  raises \<open>not initialized\<close>; the guard stands before the \<open>try\<close> block.
\<close>

theorem unready_adapter_raises:
  "fst (p_sendEmail smtp_up (NM (new_NodemailerProvider smtp_up)) hello) =
     Inl (Error ''Nodemailer provider not initialized'')"
  by (simp add: nm_sendEmail_def new_NodemailerProvider_def)

text \<open>
  Claim C4, amended. For every initialized adapter and every message, \<open>sendEmail\<close>
  returns a result and never raises; when the transport answers with an error, the
  result has \<open>success = false\<close> and that error text, and the error is recorded in the
  metrics (\<open>errorCount\<close> one higher, \<open>lastError\<close> set); when it answers without one, the
  result has \<open>success = true\<close>. An adapter that is not initialized raises and is left
  unchanged.
\<close>

theorem ready_adapter_never_raises:
  "(p_ready p \<longrightarrow>
      (case p_sendEmail w p options of
         (Inl e, p', evs) \<Rightarrow> False
       | (Inr r, p', evs) \<Rightarrow>
           (case transport_error w p options of
              None \<Rightarrow> success r \<and> error r = None
            | Some msg \<Rightarrow>
                \<not> success r \<and> error r = msg \<and>
                errorCount (p_metrics p') = errorCount (p_metrics p) + 1 \<and>
                lastError (p_metrics p') = or_else msg ''Unknown error'')))
   \<and> (\<not> p_ready p \<longrightarrow>
        (case p_sendEmail w p options of
           (Inl e, p', evs) \<Rightarrow> p' = p
         | (Inr r, p', evs) \<Rightarrow> False))"
  using p_sendEmail_ready [of p w options] p_sendEmail_not_ready [of p w options]
  by auto

theorem ready_adapter_never_raises_witness:
  "p_ready (SG api_adapter)
   \<and> transport_error both_up (SG api_adapter) hello = Some (Some ''Forbidden'')
   \<and> fst (p_sendEmail both_up (SG api_adapter) hello) =
       Inr \<lparr>success = False, messageId = None, response = None, error = Some ''Forbidden'',
            duration = 12, provider = ''sendgrid''\<rparr>
   \<and> errorCount (p_metrics (fst (snd (p_sendEmail both_up (SG api_adapter) hello)))) = 1
   \<and> \<not> p_ready (NM (new_NodemailerProvider both_up))
   \<and> isl (fst (p_sendEmail both_up (NM (new_NodemailerProvider both_up)) hello))"
  using ready_adapter_never_raises [of "SG api_adapter" both_up hello]
    ready_adapter_never_raises [of "NM (new_NodemailerProvider both_up)" both_up hello]
  by (simp add: transport_error_def api_adapter_def both_up_def smtp_up_def
        sg_from_def new_NodemailerProvider_def nm_sendEmail_def sg_sendEmail_def
        updateMetrics_def new_metrics_def)

section \<open>An adapter's \<open>initialize\<close>\<close>

text \<open>
  Claim C8, as stated, fails: the SMTP adapter's \<open>initialize\<close> checks no credential.
  With host, port, user, password and sender all absent it completes and holds a
  transporter, wherever \<open>createTransport\<close> itself does not throw.
\<close>

theorem smtp_adapter_accepts_missing_credentials:
  "nm_initialize smtp_up no_credentials (new_NodemailerProvider smtp_up) =
     (Inr (),
      \<lparr>nm_transporter = Some \<lparr>t_host = None, t_port = None, t_secure = False,
                               t_user = None, t_pass = None\<rparr>,
       nm_config = Some no_credentials, nm_metrics = new_metrics 1000\<rparr>)"
  by (simp add: nm_initialize_def no_credentials_def new_NodemailerProvider_def smtp_up_def)

text \<open>
  Claim C8, amended. The API adapter's \<open>initialize\<close> fails with the error
  \<open>SendGrid API key is required\<close> exactly when the API key is absent or empty, and
  completes otherwise. The SMTP adapter's \<open>initialize\<close> looks at no credential: it
  completes exactly when \<open>createTransport\<close> does not throw.
\<close>

theorem api_key_is_the_only_required_credential:
  "(fst (sg_initialize w c p) = Inl (Error ''SendGrid API key is required'')) = falsy (gc_apiKey c)
   \<and> (fst (sg_initialize w c p) = Inr ()) = (\<not> falsy (gc_apiKey c))
   \<and> (fst (nm_initialize w d q) = Inr ()) =
       (createTransport w \<lparr>t_host = sc_host d, t_port = sc_port d,
                            t_secure = (sc_secure d = Some True),
                            t_user = sc_user d, t_pass = sc_password d\<rparr> = None)"
  by (auto simp: sg_initialize_def nm_initialize_def Let_def split: option.splits)

theorem api_key_is_the_only_required_credential_witness:
  "falsy (gc_apiKey \<lparr>gc_apiKey = None, gc_from = Some ''noreply@example.com''\<rparr>)
   \<and> fst (sg_initialize smtp_up \<lparr>gc_apiKey = None, gc_from = Some ''noreply@example.com''\<rparr>
            (new_SendGridProvider smtp_up)) = Inl (Error ''SendGrid API key is required'')
   \<and> fst (nm_initialize smtp_up no_credentials (new_NodemailerProvider smtp_up)) = Inr ()"
  using api_key_is_the_only_required_credential
    [of smtp_up "\<lparr>gc_apiKey = None, gc_from = Some ''noreply@example.com''\<rparr>"
        "new_SendGridProvider smtp_up" no_credentials "new_NodemailerProvider smtp_up"]
  by (simp add: falsy_def no_credentials_def smtp_up_def)

section \<open>An adapter's \<open>getHealthStatus\<close>\<close>

lemma rate_above_95:
  assumes "0 < n"
  shows "((95::rat) < of_nat s / of_nat n * 100) = (95 * n < 100 * s)"
proof -
  have pos: "(0::rat) < of_nat n" using assms by simp
  have "((95::rat) < of_nat s / of_nat n * 100) = ((95::rat) * of_nat n < 100 * of_nat s)"
    using pos by (simp add: pos_less_divide_eq mult.commute)
  also have "\<dots> = ((of_nat (95 * n) :: rat) < of_nat (100 * s))"
    by simp
  also have "\<dots> = (95 * n < 100 * s)"
    by (rule of_nat_less_iff)
  finally show ?thesis .
qed

lemma success_rate_above_95:
  "(success_rate m > 95) = (100 * successCount m > 95 * (successCount m + errorCount m))"
proof (cases "0 < successCount m + errorCount m")
  case True
  have "success_rate m =
          of_nat (successCount m) / of_nat (successCount m + errorCount m) * 100"
    using True unfolding success_rate_def by (simp only: if_True)
  then show ?thesis using rate_above_95 [OF True] by (simp only:)
next
  case False
  then show ?thesis by (simp add: success_rate_def)
qed

text \<open>
  Claim C5, as stated, fails for the API adapter: its \<open>getHealthStatus\<close> does not call
  \<open>verifyConnection\<close>. With twenty successes on record and an API that rejects the
  connection test, the adapter reports healthy although its connectivity check fails.
\<close>

theorem api_adapter_healthy_without_connection:
  "isHealthy (fst (p_getHealthStatus smtp_up (SG proven_api_adapter)))
   \<and> \<not> fst (p_verifyConnection smtp_up (SG proven_api_adapter))
   \<and> snd (p_getHealthStatus smtp_up (SG proven_api_adapter)) = []"
  by (simp add: sg_getHealthStatus_def health_of_def success_rate_def proven_api_adapter_def
        api_adapter_def new_metrics_def sg_verifyConnection_def smtp_up_def)

text \<open>
  Claim C5, amended. The SMTP adapter's \<open>getHealthStatus\<close> calls \<open>verifyConnection\<close>
  once, and its healthy flag is true exactly when that check passes and more than 95% of
  the recorded attempts succeeded. The API adapter's \<open>getHealthStatus\<close> calls nothing,
  and its healthy flag is true exactly when the adapter is initialized and more than 95%
  of the recorded attempts succeeded. With no attempt on record neither is healthy.
\<close>

theorem health_flag_per_adapter:
  "isHealthy (fst (p_getHealthStatus w (NM p))) =
     (fst (nm_verifyConnection w p) \<and>
      100 * successCount (nm_metrics p) > 95 * (successCount (nm_metrics p) + errorCount (nm_metrics p)))
   \<and> snd (p_getHealthStatus w (NM p)) = [VerifyCalled ''nodemailer'']
   \<and> isHealthy (fst (p_getHealthStatus w (SG q))) =
       (sg_isInitialized q \<and>
        100 * successCount (sg_metrics q) > 95 * (successCount (sg_metrics q) + errorCount (sg_metrics q)))
   \<and> snd (p_getHealthStatus w (SG q)) = []"
  by (simp add: nm_getHealthStatus_def sg_getHealthStatus_def health_of_def
        success_rate_above_95 nm_verifyConnection_def split: prod.splits option.splits)

theorem health_flag_per_adapter_witness:
  "isHealthy (fst (p_getHealthStatus smtp_up (SG proven_api_adapter)))
   \<and> \<not> isHealthy (fst (p_getHealthStatus smtp_up (NM smtp_adapter)))
   \<and> snd (p_getHealthStatus smtp_up (NM smtp_adapter)) = [VerifyCalled ''nodemailer'']"
  using health_flag_per_adapter [of smtp_up smtp_adapter proven_api_adapter]
  by (simp add: proven_api_adapter_def api_adapter_def smtp_adapter_def new_metrics_def)

section \<open>The failover loop\<close>

lemma try_providers_result:
  "fst (try_providers w m ps) =
     (case find (succeeds w m) ps of
        None \<Rightarrow> all_failed
      | Some p \<Rightarrow> projr (fst (p_sendEmail w p m)))"
proof (induction ps)
  case Nil
  show ?case by simp
next
  case (Cons p ps)
  obtain r p' evs where one: "p_sendEmail w p m = (r, p', evs)"
    by (cases "p_sendEmail w p m") auto
  obtain r2 ps2 evs2 where rest: "try_providers w m ps = (r2, ps2, evs2)"
    by (cases "try_providers w m ps") auto
  show ?case
  proof (cases r)
    case (Inl e)
    with one rest Cons.IH show ?thesis by (simp add: succeeds_def)
  next
    case (Inr res)
    with one rest Cons.IH show ?thesis by (simp add: succeeds_def)
  qed
qed

lemma try_providers_events:
  "snd (snd (try_providers w m ps)) =
     map (\<lambda>p. SendEmailCalled (p_name p) m)
       (takeWhile (\<lambda>p. \<not> succeeds w m p) ps @ take 1 (dropWhile (\<lambda>p. \<not> succeeds w m p) ps))"
proof (induction ps)
  case Nil
  show ?case by simp
next
  case (Cons p ps)
  obtain r p' evs where one: "p_sendEmail w p m = (r, p', evs)"
    by (cases "p_sendEmail w p m") auto
  have evs: "evs = [SendEmailCalled (p_name p) m]"
    using p_sendEmail_events [of w p m] one by simp
  obtain r2 ps2 evs2 where rest: "try_providers w m ps = (r2, ps2, evs2)"
    by (cases "try_providers w m ps") auto
  show ?case
  proof (cases r)
    case (Inl e)
    with one rest evs Cons.IH show ?thesis by (simp add: succeeds_def)
  next
    case (Inr res)
    with one rest evs Cons.IH show ?thesis by (simp add: succeeds_def)
  qed
qed

lemma find_holds: "find P xs = Some x \<Longrightarrow> P x"
  by (induction xs) (auto split: if_splits)

lemma find_succeeds:
  assumes "find (succeeds w m) ps = Some p"
  shows "fst (p_sendEmail w p m) = Inr (projr (fst (p_sendEmail w p m)))"
proof -
  have "succeeds w m p" using find_holds [OF assms] .
  then show ?thesis by (cases "fst (p_sendEmail w p m)") (simp_all add: succeeds_def)
qed

lemma api_fails_smtp_succeeds:
  "\<not> succeeds both_up hello (SG api_adapter)" "succeeds both_up hello (NM smtp_adapter)"
  by (simp_all add: succeeds_def api_rejects smtp_delivers del: p_sendEmail.simps)

text \<open>
  Claim C1. On a Ready orchestrator, for every adapter list and every message,
  \<open>sendEmail\<close> calls the adapters' \<open>sendEmail\<close> in list order, up to and including the
  first adapter that returns \<open>success = true\<close>, and returns that adapter's result;
  adapters that raise or return \<open>success = false\<close> are passed over. When no adapter
  succeeds, every adapter is called and the result is the failure with provider
  \<open>none\<close>, error \<open>All mail providers failed\<close> and duration 0.
\<close>

theorem sendEmail_first_success:
  assumes "initialized s"
  shows "fst (sendEmail w s options) =
           (case find (succeeds w options) (providers s) of
              Some p \<Rightarrow> fst (p_sendEmail w p options)
            | None \<Rightarrow>
                Inr \<lparr>success = False, messageId = None, response = None,
                     error = Some ''All mail providers failed'', duration = 0,
                     provider = ''none''\<rparr>)
       \<and> snd (snd (sendEmail w s options)) =
           map (\<lambda>p. SendEmailCalled (p_name p) options)
             (takeWhile (\<lambda>p. \<not> succeeds w options p) (providers s) @
              take 1 (dropWhile (\<lambda>p. \<not> succeeds w options p) (providers s)))"
proof -
  obtain r ps' evs where tp: "try_providers w options (providers s) = (r, ps', evs)"
    by (cases "try_providers w options (providers s)") auto
  have se: "sendEmail w s options = (Inr r, s\<lparr>providers := ps'\<rparr>, evs)"
    using assms tp by (simp add: sendEmail_def)
  have r: "r = (case find (succeeds w options) (providers s) of
                  None \<Rightarrow> all_failed
                | Some p \<Rightarrow> projr (fst (p_sendEmail w p options)))"
    using try_providers_result [of w options "providers s"] tp by simp
  have "Inr r =
           (case find (succeeds w options) (providers s) of
              Some p \<Rightarrow> fst (p_sendEmail w p options)
            | None \<Rightarrow>
                Inr \<lparr>success = False, messageId = None, response = None,
                     error = Some ''All mail providers failed'', duration = 0,
                     provider = ''none''\<rparr>)"
  proof (cases "find (succeeds w options) (providers s)")
    case None
    with r show ?thesis by (simp add: all_failed_def)
  next
    case (Some p)
    with r find_succeeds [OF Some] show ?thesis by simp
  qed
  moreover have "evs =
           map (\<lambda>p. SendEmailCalled (p_name p) options)
             (takeWhile (\<lambda>p. \<not> succeeds w options p) (providers s) @
              take 1 (dropWhile (\<lambda>p. \<not> succeeds w options p) (providers s)))"
    using try_providers_events [of w options "providers s"] tp by simp
  ultimately show ?thesis using se by simp
qed

text \<open>The API adapter (priority 2) answers \<open>success = false\<close>, the SMTP adapter
  (priority 1) delivers: the result is the SMTP adapter's.\<close>

theorem sendEmail_first_success_witness:
  "initialized ready_service
   \<and> fst (sendEmail both_up ready_service hello) =
       Inr \<lparr>success = True, messageId = Some ''<1@smtp>'', response = Some ''250 OK'',
            error = None, duration = 12, provider = ''nodemailer''\<rparr>
   \<and> snd (snd (sendEmail both_up ready_service hello)) =
       [SendEmailCalled ''sendgrid'' hello, SendEmailCalled ''nodemailer'' hello]"
  using sendEmail_first_success [of ready_service both_up hello]
  by (simp add: ready_service_def api_fails_smtp_succeeds smtp_delivers del: p_sendEmail.simps)

section \<open>The orchestrator's \<open>initialize\<close>\<close>

lemma priority_or_1_eq: "priority_or_1 p = p_priority p"
  by (cases p) (simp_all add: priority_or_1_def)

lemma insert_by_priority:
  "insert_by by_priority x xs = insort_key (\<lambda>p. - p_priority p) x xs"
  by (induction xs) (simp_all add: by_priority_def priority_or_1_eq)

lemma sort_by_priority: "sort_by by_priority xs = sort_key (\<lambda>p. - p_priority p) xs"
  by (induction xs) (simp_all add: sort_by_def sort_key_def insert_by_priority)

lemma sort_by_priority_descending:
  "sorted_wrt (\<lambda>a b. p_priority b \<le> p_priority a) (sort_by by_priority xs)"
proof -
  have "sorted (map (\<lambda>p. - p_priority p) (sort_key (\<lambda>p. - p_priority p) xs))"
    by (rule sorted_sort_key)
  then show ?thesis
    by (simp add: sort_by_priority sorted_map)
qed

lemma sort_by_priority_stable:
  "filter (\<lambda>p. p_priority p = k) (sort_by by_priority xs) = filter (\<lambda>p. p_priority p = k) xs"
proof -
  have "filter (\<lambda>p. - p_priority p = - k) (sort_key (\<lambda>p. - p_priority p) xs) =
        filter (\<lambda>p. - p_priority p = - k) xs"
    by (rule sort_key_stable)
  then show ?thesis by (simp add: sort_by_priority)
qed

lemma try_nodemailer_keeps:
  "initialized (fst (try_nodemailer w s)) = initialized s"
  "config (fst (try_nodemailer w s)) = config s"
  by (auto simp: try_nodemailer_def split: option.splits prod.splits sum.splits)

lemma try_nodemailer_empty:
  "(providers (fst (try_nodemailer w s)) = []) = (providers s = [] \<and> \<not> nm_survives w (config s))"
  by (auto simp: try_nodemailer_def nm_survives_def split: option.splits prod.splits sum.splits)

lemma try_sendgrid_empty:
  "(providers (fst (try_sendgrid w s)) = []) = (providers s = [] \<and> \<not> sg_survives w (config s))"
  by (auto simp: try_sendgrid_def sg_survives_def split: option.splits prod.splits sum.splits)

lemma initialize_fresh:
  assumes "\<not> initialized s"
  shows "initialize w s =
           (if registered w s = []
            then (Inl (Error ''No mail providers could be initialized''),
                  fst (try_sendgrid w (fst (try_nodemailer w s))),
                  snd (try_nodemailer w s) @ snd (try_sendgrid w (fst (try_nodemailer w s))))
            else (Inr (),
                  (fst (try_sendgrid w (fst (try_nodemailer w s))))
                    \<lparr>providers := sort_by by_priority (registered w s), initialized := True\<rparr>,
                  snd (try_nodemailer w s) @ snd (try_sendgrid w (fst (try_nodemailer w s)))))"
  using assms by (simp add: initialize_def registered_def split: prod.splits)

lemma registered_empty:
  "(registered w s = []) =
     (providers s = [] \<and> \<not> nm_survives w (config s) \<and> \<not> sg_survives w (config s))"
  by (auto simp: registered_def try_sendgrid_empty try_nodemailer_empty try_nodemailer_keeps)

text \<open>
  A new orchestrator holds no adapter, and every operation keeps the adapter list empty
  until \<open>initialize\<close> has succeeded: the orchestrators that are not yet initialized are
  those with \<open>initialized = false\<close> and an empty list.
\<close>

lemma new_service_ready_or_empty: "ready_or_empty (new_SimpleEmailService c)"
  by (simp add: ready_or_empty_def new_SimpleEmailService_def)

lemma initialize_ready_or_empty:
  assumes "ready_or_empty s"
  shows "ready_or_empty (fst (snd (initialize w s)))"
proof (cases "initialized s")
  case True
  with assms show ?thesis by (simp add: initialize_def)
next
  case False
  show ?thesis
    unfolding initialize_fresh [OF False]
    by (simp add: ready_or_empty_def registered_def)
qed

lemma initialize_success_ready:
  "initialize w s = (Inr u, s', evs) \<Longrightarrow> initialized s'"
  by (cases "initialized s")
     (auto simp: initialize_def split: prod.splits if_splits)

lemma sendEmail_ready_or_empty:
  assumes "ready_or_empty s"
  shows "ready_or_empty (fst (snd (sendEmail w s m)))"
proof (cases "initialized s")
  case True
  then show ?thesis
    by (simp add: sendEmail_def ready_or_empty_def split: prod.splits)
next
  case False
  obtain r s1 evs where i: "initialize w s = (r, s1, evs)"
    by (cases "initialize w s") auto
  show ?thesis
  proof (cases r)
    case (Inl e)
    with i False initialize_ready_or_empty [OF assms, of w] show ?thesis
      by (simp add: sendEmail_def)
  next
    case (Inr u)
    with i have "initialized s1" using initialize_success_ready by blast
    with i Inr False show ?thesis
      by (simp add: sendEmail_def ready_or_empty_def split: prod.splits)
  qed
qed

lemma sendTemplateEmail_ready_or_empty:
  assumes "ready_or_empty s"
  shows "ready_or_empty (fst (snd (sendTemplateEmail w s n d env)))"
  using assms sendEmail_ready_or_empty [OF assms]
  by (simp add: sendTemplateEmail_def split: sum.splits option.splits)

lemma both_survive: "nm_survives both_up two_config" "sg_survives both_up two_config"
  by (simp_all add: nm_survives_def sg_survives_def two_config_def smtp_section_def
        api_section_def nm_initialize_def sg_initialize_def both_up_def smtp_up_def
        nm_verifyConnection_def sg_verifyConnection_def new_NodemailerProvider_def
        new_SendGridProvider_def falsy_def sg_config_of_def smtp_config_of_def)

lemma none_survive: "\<not> nm_survives all_down two_config" "\<not> sg_survives all_down two_config"
  by (simp_all add: nm_survives_def sg_survives_def two_config_def smtp_section_def
        api_section_def nm_initialize_def sg_initialize_def all_down_def smtp_up_def
        nm_verifyConnection_def sg_verifyConnection_def new_NodemailerProvider_def
        new_SendGridProvider_def falsy_def sg_config_of_def smtp_config_of_def)

lemma new_service:
  "\<not> initialized (new_SimpleEmailService c)" "providers (new_SimpleEmailService c) = []"
  "config (new_SimpleEmailService c) = c"
  by (simp_all add: new_SimpleEmailService_def)

lemma initialize_both_up:
  "initialize both_up (new_SimpleEmailService two_config) =
     (Inr (), ready_service,
      [Constructed ''nodemailer'', VerifyCalled ''nodemailer'',
       Constructed ''sendgrid'', VerifyCalled ''sendgrid''])"
  by (simp add: initialize_def try_nodemailer_def try_sendgrid_def new_SimpleEmailService_def
        two_config_def smtp_section_def api_section_def nm_initialize_def sg_initialize_def
        both_up_def smtp_up_def nm_verifyConnection_def sg_verifyConnection_def
        new_NodemailerProvider_def new_SendGridProvider_def falsy_def sg_config_of_def
        smtp_config_of_def sort_by_def by_priority_def priority_or_1_def ready_service_def
        api_adapter_def smtp_adapter_def a_transport_def)

text \<open>
  Claim C3. On an orchestrator that is not yet initialized (and so holds no adapter),
  \<open>initialize\<close> raises the error \<open>No mail providers could be initialized\<close> exactly when
  neither configured adapter survives its initialization and connection check, and it
  raises nothing else; when at least one survives, \<open>initialize\<close> completes and the
  orchestrator is Ready.
\<close>

theorem initialize_fails_iff_no_survivor:
  assumes "\<not> initialized s" and "providers s = []"
  shows "(fst (initialize w s) = Inl (Error ''No mail providers could be initialized'')) =
           (\<not> nm_survives w (config s) \<and> \<not> sg_survives w (config s))
       \<and> isl (fst (initialize w s)) = (\<not> nm_survives w (config s) \<and> \<not> sg_survives w (config s))
       \<and> (nm_survives w (config s) \<or> sg_survives w (config s) \<longrightarrow>
            fst (initialize w s) = Inr () \<and> initialized (fst (snd (initialize w s))))"
  using assms by (simp add: initialize_fresh [OF assms(1)] registered_empty)

text \<open>A new orchestrator with both adapters enabled: nothing reachable, then both.\<close>

theorem initialize_fails_iff_no_survivor_witness:
  "\<not> initialized (new_SimpleEmailService two_config)
   \<and> providers (new_SimpleEmailService two_config) = []
   \<and> fst (initialize all_down (new_SimpleEmailService two_config)) =
       Inl (Error ''No mail providers could be initialized'')
   \<and> fst (initialize both_up (new_SimpleEmailService two_config)) = Inr ()
   \<and> initialized (fst (snd (initialize both_up (new_SimpleEmailService two_config))))"
  using initialize_fails_iff_no_survivor [of "new_SimpleEmailService two_config" all_down]
    initialize_fails_iff_no_survivor [of "new_SimpleEmailService two_config" both_up]
  by (simp add: new_service both_survive none_survive)

text \<open>
  Claim C2, as stated, fails: the sort of line 114 reads the \<open>priority\<close> constant of the
  adapter class, never the \<open>priority\<close> field of the configuration. With the SMTP adapter
  configured at priority 5 and the API adapter at priority 1, both reachable, the API
  adapter comes first.
\<close>

theorem configured_priority_ignored:
  "getProviders (fst (snd (initialize both_up (new_SimpleEmailService two_config)))) =
     [''sendgrid'', ''nodemailer'']
   \<and> map (configured_priority two_config)
       (providers (fst (snd (initialize both_up (new_SimpleEmailService two_config))))) =
     [Some 1, Some 5]
   \<and> \<not> sorted_wrt (\<lambda>a b. b \<le> a) [1, 5 :: int]"
  unfolding initialize_both_up
  by (simp add: getProviders_def ready_service_def configured_priority_def two_config_def
        smtp_section_def api_section_def)

text \<open>
  Claim C2, amended. After a successful \<open>initialize\<close> of an orchestrator that was not
  initialized, the adapter list is sorted by descending priority of the adapter type
  (2 for the API adapter, 1 for the SMTP adapter, whatever the configuration declares),
  adapters of equal priority keep their registration order, and \<open>getProviders\<close> returns
  the adapter names in exactly that order.
\<close>

theorem initialize_sorts_by_adapter_priority:
  assumes "\<not> initialized s" and "initialize w s = (Inr u, s', evs)"
  shows "sorted_wrt (\<lambda>a b. p_priority b \<le> p_priority a) (providers s')
       \<and> (\<forall>k. filter (\<lambda>p. p_priority p = k) (providers s') =
                filter (\<lambda>p. p_priority p = k) (registered w s))
       \<and> getProviders s' = map p_name (providers s')"
proof -
  have "providers s' = sort_by by_priority (registered w s)"
    using assms(2) unfolding initialize_fresh [OF assms(1)] by (auto split: if_splits)
  then show ?thesis
    by (simp add: sort_by_priority_descending sort_by_priority_stable getProviders_def)
qed

theorem initialize_sorts_by_adapter_priority_witness:
  "\<not> initialized (new_SimpleEmailService two_config)
   \<and> initialize both_up (new_SimpleEmailService two_config) =
       (Inr (), ready_service,
        [Constructed ''nodemailer'', VerifyCalled ''nodemailer'',
         Constructed ''sendgrid'', VerifyCalled ''sendgrid''])
   \<and> getProviders ready_service = [''sendgrid'', ''nodemailer'']
   \<and> map p_priority (providers ready_service) = [2, 1]"
  using initialize_sorts_by_adapter_priority
    [OF new_service(1) initialize_both_up]
  by (simp add: new_service initialize_both_up ready_service_def)

text \<open>
  Claim C9. On a Ready orchestrator \<open>initialize\<close> returns at once: it raises nothing,
  constructs and verifies no adapter, and leaves the orchestrator, its adapter list
  included, as it was.
\<close>

theorem initialize_idempotent:
  assumes "initialized s"
  shows "initialize w s = (Inr (), s, [])"
  using assms by (simp add: initialize_def)

text \<open>Calling \<open>initialize\<close> again after the first call made the orchestrator Ready, even
  in a world where nothing can be reached any more.\<close>

theorem initialize_idempotent_witness:
  "initialized ready_service \<and> initialize all_down ready_service = (Inr (), ready_service, [])"
  using initialize_idempotent [of ready_service all_down]
  by (simp add: ready_service_def)

section \<open>Templates\<close>

lemma welcome_subject: "subject_match welcome_html = Some ''Hi {{name}}''"
  by code_simp

lemma welcome_body:
  "mustache welcome_html [(''name'', ''Ada'')] =
     Inr (''<!-- SUBJECT: Hi Ada -->'' @ [CHR 0x0A] @ ''<p>Ada</p>'')"
  by code_simp

lemma welcome_subject_rendered: "mustache ''Hi {{name}}'' [(''name'', ''Ada'')] = Inr ''Hi Ada''"
  by code_simp

lemma plain_has_no_directive: "subject_match ''<p>{{name}}</p>'' = None"
  by code_simp

lemma plain_body: "mustache ''<p>{{name}}</p>'' [(''name'', ''Ada'')] = Inr ''<p>Ada</p>''"
  by code_simp

lemma path_default: "templatePath two_config n = ''./templates/'' @ n @ ''.html''"
  by (simp add: templatePath_def two_config_def or_else_def)

lemma ready_config: "config ready_service = two_config"
  by (simp add: ready_service_def)

lemma read_missing:
  "readFileSync smtp_up (templatePath (config ready_service) ''missing'') =
     Inl ''ENOENT: no such file or directory''"
  by (simp add: ready_config path_default smtp_up_def)

lemma read_welcome:
  "readFileSync both_up (templatePath (config ready_service) ''welcome'') = Inr welcome_html"
  by (simp add: ready_config path_default both_up_def smtp_up_def)

lemma read_plain:
  "readFileSync both_up (templatePath (config ready_service) ''plain'') = Inr ''<p>{{name}}</p>''"
  by (simp add: ready_config path_default both_up_def smtp_up_def)

lemma engine_both_up: "handlebars both_up = mustache"
  by (simp add: both_up_def smtp_up_def)

lemma welcome_is_sent:
  "sendTemplateEmail both_up ready_service ''welcome'' [(''name'', ''Ada'')] to_ada =
     sendEmail both_up ready_service
       (with_body to_ada ''Hi Ada'' (''<!-- SUBJECT: Hi Ada -->'' @ [CHR 0x0A] @ ''<p>Ada</p>''))"
  unfolding sendTemplateEmail_def read_welcome engine_both_up
  by (simp only: welcome_subject welcome_body welcome_subject_rendered sum.case option.case)

lemma sendEmail_both_up_events:
  "snd (snd (sendEmail both_up ready_service m)) =
     [SendEmailCalled ''sendgrid'' m, SendEmailCalled ''nodemailer'' m]"
  by (simp add: sendEmail_def ready_service_def api_rejects_any smtp_delivers_any
        del: p_sendEmail.simps)

text \<open>
  Claim C6, as stated, fails on the body: line 159 compiles the whole file, so the
  rendered HTML keeps the directive line, itself rendered. The message handed to the
  adapters has subject \<open>Hi Ada\<close> and a body that is not \<open><p>Ada</p>\<close>.
\<close>

theorem directive_stays_in_body:
  "snd (snd (sendTemplateEmail both_up ready_service ''welcome'' [(''name'', ''Ada'')] to_ada)) =
     [SendEmailCalled ''sendgrid''
        (with_body to_ada ''Hi Ada''
           (''<!-- SUBJECT: Hi Ada -->'' @ [CHR 0x0A] @ ''<p>Ada</p>'')),
      SendEmailCalled ''nodemailer''
        (with_body to_ada ''Hi Ada''
           (''<!-- SUBJECT: Hi Ada -->'' @ [CHR 0x0A] @ ''<p>Ada</p>''))]
   \<and> eo_html (with_body to_ada ''Hi Ada''
                (''<!-- SUBJECT: Hi Ada -->'' @ [CHR 0x0A] @ ''<p>Ada</p>'')) \<noteq>
       Some ''<p>Ada</p>''"
  unfolding welcome_is_sent sendEmail_both_up_events
  by (simp add: with_body_def)

text \<open>
  Claim C6, amended. For a template file made of the directive line
  \<open><!-- SUBJECT: Hi {{name}} -->\<close> and the body \<open><p>{{name}}</p>\<close>, rendering with the data
  map \<open>{name: "Ada"}\<close> yields the subject \<open>Hi Ada\<close> and, as HTML body, the rendering of the
  whole file, the directive line included: \<open><!-- SUBJECT: Hi Ada -->\<close>, a line break and
  \<open><p>Ada</p>\<close>; that is the message \<open>sendEmail\<close> is called with. For a template file in
  which the subject directive is not found, the subject is \<open>Email Notification\<close>.
\<close>

theorem template_rendering:
  "(readFileSync w (templatePath (config s) name) =
        Inr (''<!-- SUBJECT: Hi {{name}} -->'' @ [CHR 0x0A] @ ''<p>{{name}}</p>'')
      \<and> handlebars w = mustache \<longrightarrow>
      sendTemplateEmail w s name [(''name'', ''Ada'')] env =
        sendEmail w s
          (with_body env ''Hi Ada'' (''<!-- SUBJECT: Hi Ada -->'' @ [CHR 0x0A] @ ''<p>Ada</p>'')))
   \<and> (readFileSync w (templatePath (config s) name) = Inr src
      \<and> subject_match src = None \<and> handlebars w src d = Inr html \<longrightarrow>
      sendTemplateEmail w s name d env = sendEmail w s (with_body env ''Email Notification'' html))"
proof (intro conjI impI)
  assume a: "readFileSync w (templatePath (config s) name) =
        Inr (''<!-- SUBJECT: Hi {{name}} -->'' @ [CHR 0x0A] @ ''<p>{{name}}</p>'')
      \<and> handlebars w = mustache"
  then have src: "readFileSync w (templatePath (config s) name) = Inr welcome_html"
    by (simp add: welcome_html_def)
  from a have eng: "handlebars w = mustache" by simp
  show "sendTemplateEmail w s name [(''name'', ''Ada'')] env =
        sendEmail w s
          (with_body env ''Hi Ada'' (''<!-- SUBJECT: Hi Ada -->'' @ [CHR 0x0A] @ ''<p>Ada</p>''))"
    unfolding sendTemplateEmail_def src eng
    by (simp only: welcome_subject welcome_body welcome_subject_rendered sum.case option.case)
next
  assume "readFileSync w (templatePath (config s) name) = Inr src
      \<and> subject_match src = None \<and> handlebars w src d = Inr html"
  then show "sendTemplateEmail w s name d env =
      sendEmail w s (with_body env ''Email Notification'' html)"
    by (simp add: sendTemplateEmail_def)
qed

text \<open>The two template files of the example directory.\<close>

theorem template_rendering_witness:
  "readFileSync both_up (templatePath (config ready_service) ''welcome'') =
     Inr (''<!-- SUBJECT: Hi {{name}} -->'' @ [CHR 0x0A] @ ''<p>{{name}}</p>'')
   \<and> handlebars both_up = mustache
   \<and> sendTemplateEmail both_up ready_service ''welcome'' [(''name'', ''Ada'')] to_ada =
       sendEmail both_up ready_service
         (with_body to_ada ''Hi Ada'' (''<!-- SUBJECT: Hi Ada -->'' @ [CHR 0x0A] @ ''<p>Ada</p>''))
   \<and> readFileSync both_up (templatePath (config ready_service) ''plain'') = Inr ''<p>{{name}}</p>''
   \<and> subject_match ''<p>{{name}}</p>'' = None
   \<and> handlebars both_up ''<p>{{name}}</p>'' [(''name'', ''Ada'')] = Inr ''<p>Ada</p>''
   \<and> sendTemplateEmail both_up ready_service ''plain'' [(''name'', ''Ada'')] to_ada =
       sendEmail both_up ready_service (with_body to_ada ''Email Notification'' ''<p>Ada</p>'')"
  using template_rendering
      [of both_up ready_service "''welcome''" to_ada "''<p>{{name}}</p>''"
          "[(''name'', ''Ada'')]" "''<p>Ada</p>''"]
    template_rendering
      [of both_up ready_service "''plain''" to_ada "''<p>{{name}}</p>''"
          "[(''name'', ''Ada'')]" "''<p>Ada</p>''"]
  by (simp add: read_welcome read_plain engine_both_up plain_has_no_directive plain_body
        welcome_html_def del: subject_match.simps)

text \<open>
  Claim C7. Whenever the resolution of a template fails (the file cannot be read, or
  the engine throws on the body or on the subject directive), \<open>sendTemplateEmail\<close>
  returns the failure result with provider \<open>template-loader\<close>, calls no adapter and
  leaves the orchestrator as it was.
\<close>

theorem template_failure_invokes_no_adapter:
  assumes "readFileSync w (templatePath (config s) name) = Inl msg
         \<or> (\<exists>src. readFileSync w (templatePath (config s) name) = Inr src
                  \<and> handlebars w src d = Inl msg)
         \<or> (\<exists>src html g. readFileSync w (templatePath (config s) name) = Inr src
                  \<and> handlebars w src d = Inr html
                  \<and> subject_match src = Some g \<and> handlebars w g d = Inl msg)"
  shows "sendTemplateEmail w s name d env =
           (Inr \<lparr>success = False, messageId = None, response = None,
                 error = Some (''Template loading failed: '' @ msg),
                 duration = 0, provider = ''template-loader''\<rparr>,
            s, [])"
  using assms by (auto simp: sendTemplateEmail_def template_failure_def)

text \<open>A template identifier with no file behind it.\<close>

theorem template_failure_invokes_no_adapter_witness:
  "readFileSync smtp_up (templatePath (config ready_service) ''missing'') =
     Inl ''ENOENT: no such file or directory''
   \<and> sendTemplateEmail smtp_up ready_service ''missing'' [(''name'', ''Ada'')] to_ada =
       (Inr \<lparr>success = False, messageId = None, response = None,
             error = Some ''Template loading failed: ENOENT: no such file or directory'',
             duration = 0, provider = ''template-loader''\<rparr>,
        ready_service, [])"
  using template_failure_invokes_no_adapter
    [of smtp_up ready_service "''missing''" "''ENOENT: no such file or directory''"
        "[(''name'', ''Ada'')]" to_ada]
  by (simp add: read_missing)

end
